theory Spec2Isabelle
  imports Main
begin

section \<open>psycopg/green.c: cooperation with coroutine libraries\<close>

text \<open>
  A shallow embedding of \<^verbatim>\<open>psycopg/green.c\<close>. The C functions read and write three
  pieces of state: the module global \<^verbatim>\<open>wait_callback\<close>, the fields of the connection
  they are handed (\<^verbatim>\<open>async_cursor\<close>, \<^verbatim>\<open>async_status\<close>, \<^verbatim>\<open>cancel\<close>) and the
  error indicator of the Python interpreter. All of it is gathered in one record that
  every function takes and returns. The functions of libpq, of CPython and of the
  other compilation units that \<^verbatim>\<open>green.c\<close> calls are parameters of the model.
\<close>

subsection \<open>Data\<close>

text \<open>A \<^verbatim>\<open>PyObject *\<close> that is not \<^verbatim>\<open>NULL\<close>: the singleton \<^verbatim>\<open>Py_None\<close> or any other
  object, named by its address. A pointer that may be \<^verbatim>\<open>NULL\<close> is an \<open>option\<close>.\<close>

datatype pyobj = Py_None | PyObj nat

text \<open>The exception classes \<^verbatim>\<open>green.c\<close> raises itself, and any other class by name.\<close>

datatype exc_type = OperationalError | ProgrammingError | PyExcClass string

text \<open>A raised exception: what \<^verbatim>\<open>PyErr_Fetch\<close> hands out (class and value; the
  traceback carries no information the functions here look at).\<close>

datatype pyexc = PyExc exc_type string

type_synonym pgresult = nat

type_synonym pgcancel = nat

text \<open>The values of \<^verbatim>\<open>conn->async_status\<close> that \<^verbatim>\<open>green.c\<close> names.\<close>

datatype async_status = ASYNC_DONE | ASYNC_READ | ASYNC_WRITE

text \<open>
  The state. \<open>rest\<close> stands for everything else a callee may touch (the libpq
  connection, the socket, the Python heap). \<open>closed\<close> is the connection's closed flag,
  the one \<^verbatim>\<open>conn_close_locked\<close> sets.
\<close>

record 'x world =
  wait_callback :: "pyobj option"
  async_cursor :: "pyobj option"
  async_status :: async_status
  cancel :: pgcancel
  closed :: bool
  pyerr :: "pyexc option"
  rest :: 'x

text \<open>
  One entry per call that leaves \<^verbatim>\<open>green.c\<close>, in the order the calls are made.
  The functions of the model return this list next to their result, so that a theorem
  can say that a callee was, or was not, invoked.
\<close>

datatype event =
    EvNewRef
  | EvSendQuery string
  | EvCallback pyobj
  | EvGetLastResult
  | EvPQclear pgresult
  | EvPQcancel pgcancel
  | EvWarnEx string
  | EvConnClose

text \<open>
  The callees whose code is outside \<^verbatim>\<open>green.c\<close>. Each takes the state and returns what
  the C function returns, with the state it leaves. Nothing is assumed about them: a
  wait callback is arbitrary Python code and may change any field.
  \<^item> \<open>PyWeakref_NewRef\<close>: the new reference, or \<^verbatim>\<open>NULL\<close>.
  \<^item> \<open>pq_send_query\<close>: 0 when sending failed.
  \<^item> \<open>PyObject_CallFunctionObjArgs\<close>: the callback's return value, or \<^verbatim>\<open>NULL\<close> when
    it raised.
  \<^item> \<open>pq_get_last_result\<close>: the result, or \<^verbatim>\<open>NULL\<close>.
  \<^item> \<open>PQcancel\<close>: 0 when the request could not be sent, and the contents of
    \<^verbatim>\<open>errbuf\<close>.
  \<^item> \<open>PyErr_WarnEx\<close>: 0, or -1 when the warning was turned into an exception.
\<close>

record 'x env =
  PyWeakref_NewRef :: "'x world \<Rightarrow> pyobj option \<times> 'x world"
  pq_send_query :: "string \<Rightarrow> 'x world \<Rightarrow> int \<times> 'x world"
  PyObject_CallFunctionObjArgs :: "pyobj \<Rightarrow> 'x world \<Rightarrow> pyobj option \<times> 'x world"
  pq_get_last_result :: "'x world \<Rightarrow> pgresult option \<times> 'x world"
  PQcancel :: "pgcancel \<Rightarrow> 'x world \<Rightarrow> (int \<times> string) \<times> 'x world"
  PyErr_WarnEx :: "string \<Rightarrow> 'x world \<Rightarrow> int \<times> 'x world"

subsection \<open>The error indicator\<close>

text \<open>\<^verbatim>\<open>PyErr_SetString\<close>, \<^verbatim>\<open>PyErr_Fetch\<close> (which clears the indicator) and
  \<^verbatim>\<open>PyErr_Restore\<close> (which overwrites it), as CPython documents them.\<close>

definition PyErr_SetString :: "exc_type \<Rightarrow> string \<Rightarrow> 'x world \<Rightarrow> 'x world" where
  "PyErr_SetString t msg w = w\<lparr>pyerr := Some (PyExc t msg)\<rparr>"

definition PyErr_Fetch :: "'x world \<Rightarrow> pyexc option \<times> 'x world" where
  "PyErr_Fetch w = (pyerr w, w\<lparr>pyerr := None\<rparr>)"

definition PyErr_Restore :: "pyexc \<Rightarrow> 'x world \<Rightarrow> 'x world" where
  "PyErr_Restore e w = w\<lparr>pyerr := Some e\<rparr>"

subsection \<open>The callback registry\<close>

text \<open>\<^verbatim>\<open>psyco_set_wait_callback\<close>: stores \<open>obj\<close>, or \<^verbatim>\<open>NULL\<close> when \<open>obj\<close> is
  \<^verbatim>\<open>Py_None\<close>, and returns \<^verbatim>\<open>Py_None\<close>.\<close>

definition psyco_set_wait_callback :: "pyobj \<Rightarrow> 'x world \<Rightarrow> pyobj \<times> 'x world" where
  "psyco_set_wait_callback obj w =
     (if obj \<noteq> Py_None then (Py_None, w\<lparr>wait_callback := Some obj\<rparr>)
      else (Py_None, w\<lparr>wait_callback := None\<rparr>))"

definition psyco_get_wait_callback :: "'x world \<Rightarrow> pyobj" where
  "psyco_get_wait_callback w =
     (case wait_callback w of None \<Rightarrow> Py_None | Some ret \<Rightarrow> ret)"

text \<open>\<^verbatim>\<open>psyco_green\<close>. The macro \<^verbatim>\<open>PSYCOPG_EXTENSIONS\<close> is set by the build, outside
  \<^verbatim>\<open>green.c\<close>: the first argument says whether it is defined.\<close>

definition psyco_green :: "bool \<Rightarrow> 'x world \<Rightarrow> int" where
  "psyco_green PSYCOPG_EXTENSIONS w =
     (if PSYCOPG_EXTENSIONS then (if wait_callback w \<noteq> None then 1 else 0) else 0)"

subsection \<open>Waiting\<close>

definition have_wait_callback :: "'x world \<Rightarrow> pyobj option \<times> 'x world" where
  "have_wait_callback w =
     (case wait_callback w of
        None \<Rightarrow> (None, PyErr_SetString OperationalError ''wait callback not available'' w)
      | Some cb \<Rightarrow> (Some cb, w))"

text \<open>\<^verbatim>\<open>psyco_wait\<close>: 0 on success, -1 when there is no callback or the callback
  returned \<^verbatim>\<open>NULL\<close>.\<close>

definition psyco_wait :: "'x env \<Rightarrow> 'x world \<Rightarrow> int \<times> 'x world \<times> event list" where
  "psyco_wait env w =
     (case have_wait_callback w of
        (None, w1) \<Rightarrow> (- 1, w1, [])
      | (Some cb, w1) \<Rightarrow>
          (case PyObject_CallFunctionObjArgs env cb w1 of
             (Some rv, w2) \<Rightarrow> (0, w2, [EvCallback cb])
           | (None, w2) \<Rightarrow> (- 1, w2, [EvCallback cb])))"

subsection \<open>Cancelling after a failed wait\<close>

text \<open>Modelled from the spec: \<^verbatim>\<open>conn_close_locked\<close> is defined in
  \<^verbatim>\<open>psycopg/connection.c\<close>, which is not among the sources. The spec's \<open>forceClose\<close>
  is "a destructive, connection-wide operation -- the connection becomes unusable for
  any further operation": the closed flag is set.\<close>

definition conn_close_locked :: "'x world \<Rightarrow> 'x world" where
  "conn_close_locked w = w\<lparr>closed := True\<rparr>"

text \<open>The body of \<^verbatim>\<open>psyco_panic_cancel\<close> between \<^verbatim>\<open>PyErr_Fetch\<close> and the label
  \<^verbatim>\<open>exit\<close>: each \<^verbatim>\<open>goto exit\<close> is a result of this function.\<close>

definition panic_cancel_steps :: "'x env \<Rightarrow> 'x world \<Rightarrow> 'x world \<times> event list" where
  "panic_cancel_steps env w =
     (case PQcancel env (cancel w) w of
        ((rv, errbuf), w1) \<Rightarrow>
          if rv = 0 then
            (case PyErr_WarnEx env errbuf w1 of
               (_, w2) \<Rightarrow> (w2, [EvPQcancel (cancel w), EvWarnEx errbuf]))
          else
            (case psyco_wait env w1 of
               (rc, w2, l) \<Rightarrow>
                 if rc \<noteq> 0 then
                   (case PyErr_WarnEx env ''async cancel failed: closing the connection'' w2 of
                      (_, w3) \<Rightarrow>
                        (conn_close_locked w3,
                         EvPQcancel (cancel w) # l @
                         [EvWarnEx ''async cancel failed: closing the connection'',
                          EvConnClose]))
                 else
                   (case pq_get_last_result env w2 of
                      (None, w3) \<Rightarrow> (w3, EvPQcancel (cancel w) # l @ [EvGetLastResult])
                    | (Some res, w3) \<Rightarrow>
                        (w3, EvPQcancel (cancel w) # l @ [EvGetLastResult, EvPQclear res]))))"

text \<open>The label \<^verbatim>\<open>exit\<close>: the fetched exception is restored when there was one.\<close>

definition panic_cancel_exit :: "pyexc option \<Rightarrow> 'x world \<Rightarrow> 'x world" where
  "panic_cancel_exit etype w =
     (case etype of None \<Rightarrow> w | Some e \<Rightarrow> PyErr_Restore e w)"

definition psyco_panic_cancel :: "'x env \<Rightarrow> 'x world \<Rightarrow> 'x world \<times> event list" where
  "psyco_panic_cancel env w =
     (case PyErr_Fetch w of
        (etype, w1) \<Rightarrow>
          (case panic_cancel_steps env w1 of
             (w2, l) \<Rightarrow> (panic_cancel_exit etype w2, l)))"

subsection \<open>Executing a command\<close>

text \<open>The label \<^verbatim>\<open>end\<close> of \<^verbatim>\<open>psyco_exec_green\<close>, where every path of the function
  arrives.\<close>

definition exec_green_end ::
  "pgresult option \<Rightarrow> 'x world \<Rightarrow> event list \<Rightarrow> pgresult option \<times> 'x world \<times> event list" where
  "exec_green_end result w l =
     (result, w\<lparr>async_status := ASYNC_DONE, async_cursor := None\<rparr>, l)"

definition psyco_exec_green ::
  "'x env \<Rightarrow> string \<Rightarrow> 'x world \<Rightarrow> pgresult option \<times> 'x world \<times> event list" where
  "psyco_exec_green env command w =
     (if async_cursor w \<noteq> None then
        exec_green_end None
          (PyErr_SetString ProgrammingError
             ''a single async query can be executed on the same connection'' w) []
      else
        (case PyWeakref_NewRef env w of
           (None, w1) \<Rightarrow> exec_green_end None (w1\<lparr>async_cursor := None\<rparr>) [EvNewRef]
         | (Some r, w1) \<Rightarrow>
             (case pq_send_query env command (w1\<lparr>async_cursor := Some r\<rparr>) of
                (rv, w2) \<Rightarrow>
                  if rv = 0 then exec_green_end None w2 [EvNewRef, EvSendQuery command]
                  else
                    (case psyco_wait env (w2\<lparr>async_status := ASYNC_WRITE\<rparr>) of
                       (rc, w3, l) \<Rightarrow>
                         if rc \<noteq> 0 then
                           (case psyco_panic_cancel env w3 of
                              (w4, l') \<Rightarrow>
                                exec_green_end None w4
                                  ([EvNewRef, EvSendQuery command] @ l @ l'))
                         else
                           (case pq_get_last_result env w3 of
                              (result, w4) \<Rightarrow>
                                exec_green_end result w4
                                  ([EvNewRef, EvSendQuery command] @ l @
                                   [EvGetLastResult]))))))"

text \<open>The three components of what \<^verbatim>\<open>psyco_exec_green\<close> returns.\<close>

definition result_of :: "pgresult option \<times> 'x world \<times> event list \<Rightarrow> pgresult option" where
  "result_of r = fst r"

definition world_of :: "pgresult option \<times> 'x world \<times> event list \<Rightarrow> 'x world" where
  "world_of r = fst (snd r)"

definition calls_of :: "pgresult option \<times> 'x world \<times> event list \<Rightarrow> event list" where
  "calls_of r = snd (snd r)"

subsection \<open>Sample states and callees\<close>

text \<open>Concrete inputs on which the theorems below are run. \<open>idle_world\<close> is a
  connection at rest with a callback registered; \<open>no_callback_world\<close> is the same with
  no callback; \<open>busy_world\<close> has a query in flight, waiting to read.\<close>

definition idle_world :: "unit world" where
  "idle_world =
     \<lparr>wait_callback = Some (PyObj 1), async_cursor = None, async_status = ASYNC_DONE,
      cancel = 5, closed = False, pyerr = None, rest = ()\<rparr>"

definition no_callback_world :: "unit world" where
  "no_callback_world = idle_world\<lparr>wait_callback := None\<rparr>"

definition busy_world :: "unit world" where
  "busy_world = idle_world\<lparr>async_cursor := Some (PyObj 2), async_status := ASYNC_READ\<rparr>"

text \<open>Callees that answer the same way on every call: \<open>ref\<close> is what
  \<^verbatim>\<open>PyWeakref_NewRef\<close> returns, \<open>send_rv\<close> what \<^verbatim>\<open>pq_send_query\<close> returns, \<open>raised\<close> the
  exception the wait callback raises (none: it returns \<^verbatim>\<open>Py_None\<close>), \<open>cancel_rv\<close> what
  \<^verbatim>\<open>PQcancel\<close> returns, and \<open>strict\<close> says whether warnings are turned into
  exceptions.\<close>

definition sample_env :: "pyobj option \<Rightarrow> int \<Rightarrow> pyexc option \<Rightarrow> int \<Rightarrow> bool \<Rightarrow> unit env" where
  "sample_env ref send_rv raised cancel_rv strict =
     \<lparr>PyWeakref_NewRef = (\<lambda>w. (ref, w)),
      pq_send_query = (\<lambda>command w. (send_rv, w)),
      PyObject_CallFunctionObjArgs =
        (\<lambda>cb w. case raised of
                   None \<Rightarrow> (Some Py_None, w\<lparr>async_status := ASYNC_DONE\<rparr>)
                 | Some e \<Rightarrow> (None, w\<lparr>pyerr := Some e\<rparr>)),
      pq_get_last_result = (\<lambda>w. (Some 42, w)),
      PQcancel =
        (\<lambda>c w. ((cancel_rv, if cancel_rv = 0 then ''PQcancel() -- connect() failed'' else []), w)),
      PyErr_WarnEx =
        (\<lambda>msg w. if strict then (- 1, w\<lparr>pyerr := Some (PyExc (PyExcClass ''RuntimeWarning'') msg)\<rparr>)
                  else (0, w))\<rparr>"

definition timeout :: pyexc where
  "timeout = PyExc (PyExcClass ''Timeout'') ''wait timed out''"

text \<open>
  \<^verbatim>\<open>PyErr_WarnEx\<close> as the interpreter runs it, on a state whose \<open>rest\<close> is the list of
  the warnings delivered so far. With no exception pending the message is delivered and
  0 is returned. Called while an exception is pending, the warning machinery stops at its
  first look at the error indicator: -1 is returned and nothing is delivered.
\<close>

definition PyErr_WarnEx_cpython :: "string \<Rightarrow> string list world \<Rightarrow> int \<times> string list world" where
  "PyErr_WarnEx_cpython msg w =
     (if pyerr w = None then (0, w\<lparr>rest := rest w @ [msg]\<rparr>) else (- 1, w))"

text \<open>A connection at rest with a callback registered and no warning delivered yet, and
  callees under which the marker is created, the command is sent, every call of the wait
  callback raises \<open>timeout\<close>, \<^verbatim>\<open>PQcancel\<close> returns \<open>cancel_rv\<close> and warnings go through
  \<open>PyErr_WarnEx_cpython\<close>.\<close>

definition recording_world :: "string list world" where
  "recording_world =
     \<lparr>wait_callback = Some (PyObj 1), async_cursor = None, async_status = ASYNC_DONE,
      cancel = 5, closed = False, pyerr = None, rest = []\<rparr>"

definition recording_env :: "int \<Rightarrow> string list env" where
  "recording_env cancel_rv =
     \<lparr>PyWeakref_NewRef = (\<lambda>w. (Some (PyObj 9), w)),
      pq_send_query = (\<lambda>command w. (1, w)),
      PyObject_CallFunctionObjArgs = (\<lambda>cb w. (None, w\<lparr>pyerr := Some timeout\<rparr>)),
      pq_get_last_result = (\<lambda>w. (Some 42, w)),
      PQcancel =
        (\<lambda>c w. ((cancel_rv, if cancel_rv = 0 then ''PQcancel() -- connect() failed'' else []), w)),
      PyErr_WarnEx = PyErr_WarnEx_cpython\<rparr>"

section \<open>Properties\<close>

subsection \<open>Auxiliary facts\<close>

lemma exec_green_end_parts:
  "result_of (exec_green_end result w l) = result"
  "async_cursor (world_of (exec_green_end result w l)) = None"
  "async_status (world_of (exec_green_end result w l)) = ASYNC_DONE"
  "pyerr (world_of (exec_green_end result w l)) = pyerr w"
  "closed (world_of (exec_green_end result w l)) = closed w"
  "calls_of (exec_green_end result w l) = l"
  by (simp_all add: exec_green_end_def result_of_def world_of_def calls_of_def)

lemma exec_green_reaches_end:
  "\<exists>result w' l. psyco_exec_green env command w = exec_green_end result w' l"
  unfolding psyco_exec_green_def
  by (simp split: prod.split option.split) blast

lemma fetch_nothing: "pyerr w = None \<Longrightarrow> w\<lparr>pyerr := None\<rparr> = w"
  by (cases w) simp

lemma panic_cancel_restores:
  "pyerr w = Some e \<Longrightarrow> pyerr (fst (psyco_panic_cancel env w)) = Some e"
  by (simp add: psyco_panic_cancel_def PyErr_Fetch_def panic_cancel_exit_def
      PyErr_Restore_def split: prod.split)

lemma psyco_wait_no_callback:
  "wait_callback w = None \<Longrightarrow>
   psyco_wait env w =
     (- 1, PyErr_SetString OperationalError ''wait callback not available'' w, [])"
  by (simp add: psyco_wait_def have_wait_callback_def)

lemma exec_green_sent:
  assumes "async_cursor w = None"
    and "PyWeakref_NewRef env w = (Some r, w1)"
    and "pq_send_query env command (w1\<lparr>async_cursor := Some r\<rparr>) = (rv, w2)"
    and "rv \<noteq> 0"
    and "psyco_wait env (w2\<lparr>async_status := ASYNC_WRITE\<rparr>) = (rc, w3, l)"
  shows "psyco_exec_green env command w =
     (if rc \<noteq> 0 then
        exec_green_end None (fst (psyco_panic_cancel env w3))
          ([EvNewRef, EvSendQuery command] @ l @ snd (psyco_panic_cancel env w3))
      else
        exec_green_end (fst (pq_get_last_result env w3)) (snd (pq_get_last_result env w3))
          ([EvNewRef, EvSendQuery command] @ l @ [EvGetLastResult]))"
  using assms by (simp add: psyco_exec_green_def split: prod.split)

lemma panic_cancel_sent:
  assumes "PQcancel env (cancel w) (w\<lparr>pyerr := None\<rparr>) = ((rv, errbuf), w1)"
    and "rv \<noteq> 0"
    and "psyco_wait env w1 = (rc, w2, l)"
    and "rc \<noteq> 0"
    and "PyErr_WarnEx env ''async cancel failed: closing the connection'' w2 = (x, w3)"
  shows "psyco_panic_cancel env w =
     (panic_cancel_exit (pyerr w) (conn_close_locked w3),
      EvPQcancel (cancel w) # l @
      [EvWarnEx ''async cancel failed: closing the connection'', EvConnClose])"
  using assms
  by (simp add: psyco_panic_cancel_def PyErr_Fetch_def panic_cancel_steps_def)

lemma panic_cancel_unsent:
  assumes "PQcancel env (cancel w) (w\<lparr>pyerr := None\<rparr>) = ((0, errbuf), w1)"
    and "PyErr_WarnEx env errbuf w1 = (x, w2)"
  shows "psyco_panic_cancel env w =
     (panic_cancel_exit (pyerr w) w2, [EvPQcancel (cancel w), EvWarnEx errbuf])"
  using assms
  by (simp add: psyco_panic_cancel_def PyErr_Fetch_def panic_cancel_steps_def)

subsection \<open>The busy marker\<close>

text \<open>
  Claim C1. The claim: when \<^verbatim>\<open>conn->async_cursor\<close> is already set, \<^verbatim>\<open>psyco_exec_green\<close>
  raises the error of a concurrent query and leaves \<^verbatim>\<open>async_status\<close> and the existing
  marker as they were. The code raises the error, calls nothing, and then jumps to the
  label \<^verbatim>\<open>end\<close>, which resets both fields: on \<open>busy_world\<close>, whose marker is
  \<open>PyObj 2\<close> and whose status is \<open>ASYNC_READ\<close>, the call returns \<^verbatim>\<open>NULL\<close> with
  \<open>ProgrammingError\<close> pending, the marker cleared and the status \<open>ASYNC_DONE\<close>, whatever
  the callees and the command are.
\<close>

theorem exec_green_busy_clears_marker:
  "async_cursor busy_world = Some (PyObj 2) \<and> async_status busy_world = ASYNC_READ \<and>
   psyco_exec_green env command busy_world =
     (None,
      busy_world\<lparr>pyerr := Some (PyExc ProgrammingError
           ''a single async query can be executed on the same connection''),
         async_status := ASYNC_DONE, async_cursor := None\<rparr>,
      [])"
  by (simp add: psyco_exec_green_def exec_green_end_def PyErr_SetString_def busy_world_def
      idle_world_def)

text \<open>
  Claim C3. For every call of \<^verbatim>\<open>psyco_exec_green\<close> on a connection whose
  \<^verbatim>\<open>async_cursor\<close> is \<^verbatim>\<open>NULL\<close> on entry, and whatever the callees do (the marker cannot
  be created, sending fails, the wait fails, the recovery fails, or a result is
  fetched), the connection has \<^verbatim>\<open>async_cursor\<close> \<^verbatim>\<open>NULL\<close> and \<^verbatim>\<open>async_status\<close>
  \<open>ASYNC_DONE\<close> when the call returns.
\<close>

theorem exec_green_clears_marker:
  assumes "async_cursor w = None"
  shows "async_cursor (world_of (psyco_exec_green env command w)) = None \<and>
         async_status (world_of (psyco_exec_green env command w)) = ASYNC_DONE"
proof -
  obtain result w' l where "psyco_exec_green env command w = exec_green_end result w' l"
    using exec_green_reaches_end by blast
  then show ?thesis by (simp add: exec_green_end_parts)
qed

text \<open>The witness: a run in which the callback raises, the cancel request is sent, the
  second wait fails too and the warnings are turned into exceptions.\<close>

theorem exec_green_clears_marker_witness:
  "async_cursor idle_world = None \<and>
   async_cursor (world_of (psyco_exec_green (sample_env (Some (PyObj 9)) 1 (Some timeout) 1 True)
      ''SELECT 1'' idle_world)) = None \<and>
   async_status (world_of (psyco_exec_green (sample_env (Some (PyObj 9)) 1 (Some timeout) 1 True)
      ''SELECT 1'' idle_world)) = ASYNC_DONE"
proof -
  have h: "async_cursor idle_world = None" by (simp add: idle_world_def)
  from exec_green_clears_marker [OF h] h show ?thesis by blast
qed

subsection \<open>Without a callback\<close>

text \<open>
  Claim C2, as stated, fails. The claim: a call made while no wait callback is
  registered fails with "wait callback not available" and \<^verbatim>\<open>pq_send_query\<close> is never
  invoked. \<^verbatim>\<open>psyco_exec_green\<close> looks the callback up only inside \<^verbatim>\<open>psyco_wait\<close>,
  after the command has been sent: on \<open>no_callback_world\<close>, with callees that succeed,
  the list of calls made contains the call of \<^verbatim>\<open>pq_send_query\<close>.
\<close>

theorem exec_green_no_callback_sends:
  "wait_callback no_callback_world = None \<and>
   EvSendQuery ''SELECT 1'' \<in> set (calls_of
     (psyco_exec_green (sample_env (Some (PyObj 9)) 1 None 1 False) ''SELECT 1''
        no_callback_world))"
  by (simp add: psyco_exec_green_def exec_green_end_def calls_of_def sample_env_def
      no_callback_world_def idle_world_def psyco_wait_def have_wait_callback_def
      split: prod.split)

text \<open>
  Claim C2, amended. When no wait callback is registered on entry and none has been
  registered by the time the wait is entered, the busy marker is \<^verbatim>\<open>NULL\<close>, the marker is
  created and \<^verbatim>\<open>pq_send_query\<close> succeeds: the command is sent first; then
  \<^verbatim>\<open>psyco_wait\<close> fails without calling anything, the cancel recovery is entered, and
  the call returns \<^verbatim>\<open>NULL\<close> with \<open>OperationalError\<close> "wait callback not available" as the
  pending error.
\<close>

theorem exec_green_no_callback:
  assumes "wait_callback w = None"
    and "async_cursor w = None"
    and "PyWeakref_NewRef env w = (Some r, w1)"
    and "pq_send_query env command (w1\<lparr>async_cursor := Some r\<rparr>) = (rv, w2)"
    and "rv \<noteq> 0"
    and "wait_callback w2 = wait_callback w"
  shows "result_of (psyco_exec_green env command w) = None \<and>
         pyerr (world_of (psyco_exec_green env command w)) =
           Some (PyExc OperationalError ''wait callback not available'') \<and>
         calls_of (psyco_exec_green env command w) =
           [EvNewRef, EvSendQuery command] @
           snd (psyco_panic_cancel env
                  (PyErr_SetString OperationalError ''wait callback not available''
                     (w2\<lparr>async_status := ASYNC_WRITE\<rparr>)))"
proof -
  define w3 where "w3 = PyErr_SetString OperationalError ''wait callback not available''
                (w2\<lparr>async_status := ASYNC_WRITE\<rparr>)"
  have "wait_callback (w2\<lparr>async_status := ASYNC_WRITE\<rparr>) = None"
    using assms(1,6) by simp
  then have wait: "psyco_wait env (w2\<lparr>async_status := ASYNC_WRITE\<rparr>) = (- 1, w3, [])"
    by (simp add: psyco_wait_no_callback w3_def)
  have run: "psyco_exec_green env command w =
      exec_green_end None (fst (psyco_panic_cancel env w3))
        ([EvNewRef, EvSendQuery command] @ [] @ snd (psyco_panic_cancel env w3))"
    using exec_green_sent [OF assms(2,3,4,5) wait] by simp
  have "pyerr w3 = Some (PyExc OperationalError ''wait callback not available'')"
    by (simp add: PyErr_SetString_def w3_def)
  then have "pyerr (fst (psyco_panic_cancel env w3)) =
      Some (PyExc OperationalError ''wait callback not available'')"
    by (rule panic_cancel_restores)
  with run show ?thesis by (simp add: exec_green_end_parts w3_def)
qed

theorem exec_green_no_callback_witness:
  "wait_callback no_callback_world = None \<and>
   async_cursor no_callback_world = None \<and>
   PyWeakref_NewRef (sample_env (Some (PyObj 9)) 1 None 0 False) no_callback_world =
     (Some (PyObj 9), no_callback_world) \<and>
   pq_send_query (sample_env (Some (PyObj 9)) 1 None 0 False) ''SELECT 1''
     (no_callback_world\<lparr>async_cursor := Some (PyObj 9)\<rparr>) =
     (1, no_callback_world\<lparr>async_cursor := Some (PyObj 9)\<rparr>) \<and>
   (1::int) \<noteq> 0 \<and>
   wait_callback (no_callback_world\<lparr>async_cursor := Some (PyObj 9)\<rparr>) =
     wait_callback no_callback_world \<and>
   result_of (psyco_exec_green (sample_env (Some (PyObj 9)) 1 None 0 False) ''SELECT 1''
     no_callback_world) = None \<and>
   pyerr (world_of (psyco_exec_green (sample_env (Some (PyObj 9)) 1 None 0 False) ''SELECT 1''
     no_callback_world)) = Some (PyExc OperationalError ''wait callback not available'') \<and>
   calls_of (psyco_exec_green (sample_env (Some (PyObj 9)) 1 None 0 False) ''SELECT 1''
     no_callback_world) =
     [EvNewRef, EvSendQuery ''SELECT 1''] @
     snd (psyco_panic_cancel (sample_env (Some (PyObj 9)) 1 None 0 False)
            (PyErr_SetString OperationalError ''wait callback not available''
               (no_callback_world\<lparr>async_cursor := Some (PyObj 9),
                  async_status := ASYNC_WRITE\<rparr>)))"
proof -
  have h1: "wait_callback no_callback_world = None"
    and h2: "async_cursor no_callback_world = None"
    by (simp_all add: no_callback_world_def idle_world_def)
  have h3: "PyWeakref_NewRef (sample_env (Some (PyObj 9)) 1 None 0 False) no_callback_world =
      (Some (PyObj 9), no_callback_world)"
    by (simp add: sample_env_def)
  have h4: "pq_send_query (sample_env (Some (PyObj 9)) 1 None 0 False) ''SELECT 1''
      (no_callback_world\<lparr>async_cursor := Some (PyObj 9)\<rparr>) =
      (1, no_callback_world\<lparr>async_cursor := Some (PyObj 9)\<rparr>)"
    by (simp add: sample_env_def)
  have h5: "(1::int) \<noteq> 0" by simp
  have h6: "wait_callback (no_callback_world\<lparr>async_cursor := Some (PyObj 9)\<rparr>) =
      wait_callback no_callback_world"
    by simp
  from exec_green_no_callback [OF h1 h2 h3 h4 h5 h6] h1 h2 h3 h4 h5 h6
  show ?thesis by blast
qed

subsection \<open>A successful execution\<close>

text \<open>
  Claim C4. For every call of \<^verbatim>\<open>psyco_exec_green\<close> with the busy marker \<^verbatim>\<open>NULL\<close> on
  entry in which \<^verbatim>\<open>pq_send_query\<close> succeeds (it is called once the marker has been
  created) and \<^verbatim>\<open>psyco_wait\<close> succeeds (it returns 0, which it does only when a
  callback is registered and returns normally), the call returns what
  \<^verbatim>\<open>pq_get_last_result\<close> returned on the state the wait left, and \<^verbatim>\<open>async_status\<close>
  ends as \<open>ASYNC_DONE\<close>.
\<close>

theorem exec_green_success:
  assumes "async_cursor w = None"
    and "PyWeakref_NewRef env w = (Some r, w1)"
    and "pq_send_query env command (w1\<lparr>async_cursor := Some r\<rparr>) = (rv, w2)"
    and "rv \<noteq> 0"
    and "psyco_wait env (w2\<lparr>async_status := ASYNC_WRITE\<rparr>) = (0, w3, l)"
    and "pq_get_last_result env w3 = (result, w4)"
  shows "psyco_exec_green env command w =
           (result, w4\<lparr>async_status := ASYNC_DONE, async_cursor := None\<rparr>,
            [EvNewRef, EvSendQuery command] @ l @ [EvGetLastResult]) \<and>
         result_of (psyco_exec_green env command w) = result \<and>
         async_status (world_of (psyco_exec_green env command w)) = ASYNC_DONE"
  using exec_green_sent [OF assms(1,2,3,4,5)] assms(6)
  by (simp add: exec_green_end_def result_of_def world_of_def)

theorem exec_green_success_witness:
  "async_cursor idle_world = None \<and>
   PyWeakref_NewRef (sample_env (Some (PyObj 9)) 1 None 1 False) idle_world =
     (Some (PyObj 9), idle_world) \<and>
   pq_send_query (sample_env (Some (PyObj 9)) 1 None 1 False) ''SELECT 1''
     (idle_world\<lparr>async_cursor := Some (PyObj 9)\<rparr>) =
     (1, idle_world\<lparr>async_cursor := Some (PyObj 9)\<rparr>) \<and>
   (1::int) \<noteq> 0 \<and>
   psyco_wait (sample_env (Some (PyObj 9)) 1 None 1 False)
     (idle_world\<lparr>async_cursor := Some (PyObj 9), async_status := ASYNC_WRITE\<rparr>) =
     (0, idle_world\<lparr>async_cursor := Some (PyObj 9), async_status := ASYNC_DONE\<rparr>,
      [EvCallback (PyObj 1)]) \<and>
   pq_get_last_result (sample_env (Some (PyObj 9)) 1 None 1 False)
     (idle_world\<lparr>async_cursor := Some (PyObj 9), async_status := ASYNC_DONE\<rparr>) =
     (Some 42, idle_world\<lparr>async_cursor := Some (PyObj 9), async_status := ASYNC_DONE\<rparr>) \<and>
   psyco_exec_green (sample_env (Some (PyObj 9)) 1 None 1 False) ''SELECT 1'' idle_world =
     (Some 42,
      idle_world\<lparr>async_cursor := Some (PyObj 9), async_status := ASYNC_DONE,
        async_status := ASYNC_DONE, async_cursor := None\<rparr>,
      [EvNewRef, EvSendQuery ''SELECT 1''] @ [EvCallback (PyObj 1)] @ [EvGetLastResult]) \<and>
   result_of (psyco_exec_green (sample_env (Some (PyObj 9)) 1 None 1 False) ''SELECT 1''
     idle_world) = Some 42 \<and>
   async_status (world_of (psyco_exec_green (sample_env (Some (PyObj 9)) 1 None 1 False)
     ''SELECT 1'' idle_world)) = ASYNC_DONE"
proof -
  have h1: "async_cursor idle_world = None"
    by (simp add: idle_world_def)
  have h2: "PyWeakref_NewRef (sample_env (Some (PyObj 9)) 1 None 1 False) idle_world =
      (Some (PyObj 9), idle_world)"
    by (simp add: sample_env_def)
  have h3: "pq_send_query (sample_env (Some (PyObj 9)) 1 None 1 False) ''SELECT 1''
      (idle_world\<lparr>async_cursor := Some (PyObj 9)\<rparr>) =
      (1, idle_world\<lparr>async_cursor := Some (PyObj 9)\<rparr>)"
    by (simp add: sample_env_def)
  have h4: "(1::int) \<noteq> 0" by simp
  have h5: "psyco_wait (sample_env (Some (PyObj 9)) 1 None 1 False)
      (idle_world\<lparr>async_cursor := Some (PyObj 9), async_status := ASYNC_WRITE\<rparr>) =
      (0, idle_world\<lparr>async_cursor := Some (PyObj 9), async_status := ASYNC_DONE\<rparr>,
       [EvCallback (PyObj 1)])"
    by (simp add: psyco_wait_def have_wait_callback_def sample_env_def idle_world_def)
  have h6: "pq_get_last_result (sample_env (Some (PyObj 9)) 1 None 1 False)
      (idle_world\<lparr>async_cursor := Some (PyObj 9), async_status := ASYNC_DONE\<rparr>) =
      (Some 42, idle_world\<lparr>async_cursor := Some (PyObj 9), async_status := ASYNC_DONE\<rparr>)"
    by (simp add: sample_env_def)
  from exec_green_success [OF h1 h2 h3 h4 h5 h6] h1 h2 h3 h4 h5 h6
  show ?thesis by blast
qed

subsection \<open>A failed send\<close>

text \<open>
  Claim C5. For every call of \<^verbatim>\<open>psyco_exec_green\<close> in which \<^verbatim>\<open>pq_send_query\<close> fails
  (it returns 0), the call returns \<^verbatim>\<open>NULL\<close> in the state the failed send left, error
  indicator included; the calls made are those of \<^verbatim>\<open>PyWeakref_NewRef\<close> and
  \<^verbatim>\<open>pq_send_query\<close> and no other, so neither \<^verbatim>\<open>psyco_wait\<close> nor
  \<^verbatim>\<open>psyco_panic_cancel\<close> is entered; and the busy marker is cleared.
\<close>

theorem exec_green_send_failure:
  assumes "async_cursor w = None"
    and "PyWeakref_NewRef env w = (Some r, w1)"
    and "pq_send_query env command (w1\<lparr>async_cursor := Some r\<rparr>) = (0, w2)"
  shows "psyco_exec_green env command w =
           (None, w2\<lparr>async_status := ASYNC_DONE, async_cursor := None\<rparr>,
            [EvNewRef, EvSendQuery command]) \<and>
         pyerr (world_of (psyco_exec_green env command w)) = pyerr w2 \<and>
         async_cursor (world_of (psyco_exec_green env command w)) = None"
  using assms by (simp add: psyco_exec_green_def exec_green_end_def world_of_def)

theorem exec_green_send_failure_witness:
  "async_cursor idle_world = None \<and>
   PyWeakref_NewRef (sample_env (Some (PyObj 9)) 0 None 1 False) idle_world =
     (Some (PyObj 9), idle_world) \<and>
   pq_send_query (sample_env (Some (PyObj 9)) 0 None 1 False) ''SELECT 1''
     (idle_world\<lparr>async_cursor := Some (PyObj 9)\<rparr>) =
     (0, idle_world\<lparr>async_cursor := Some (PyObj 9)\<rparr>) \<and>
   psyco_exec_green (sample_env (Some (PyObj 9)) 0 None 1 False) ''SELECT 1'' idle_world =
     (None, idle_world, [EvNewRef, EvSendQuery ''SELECT 1'']) \<and>
   pyerr (world_of (psyco_exec_green (sample_env (Some (PyObj 9)) 0 None 1 False) ''SELECT 1''
     idle_world)) = None \<and>
   async_cursor (world_of (psyco_exec_green (sample_env (Some (PyObj 9)) 0 None 1 False)
     ''SELECT 1'' idle_world)) = None"
proof -
  let ?env = "sample_env (Some (PyObj 9)) 0 None 1 False"
  let ?w2 = "idle_world\<lparr>async_cursor := Some (PyObj 9)\<rparr>"
  have h1: "async_cursor idle_world = None"
    by (simp add: idle_world_def)
  have h2: "PyWeakref_NewRef ?env idle_world = (Some (PyObj 9), idle_world)"
    by (simp add: sample_env_def)
  have h3: "pq_send_query ?env ''SELECT 1'' ?w2 = (0, ?w2)"
    by (simp add: sample_env_def)
  have c: "?w2\<lparr>async_status := ASYNC_DONE, async_cursor := None\<rparr> = idle_world"
    "pyerr ?w2 = None"
    by (simp_all add: idle_world_def)
  from exec_green_send_failure [OF h1 h2 h3]
  have "psyco_exec_green ?env ''SELECT 1'' idle_world =
      (None, ?w2\<lparr>async_status := ASYNC_DONE, async_cursor := None\<rparr>,
       [EvNewRef, EvSendQuery ''SELECT 1''])"
    and "pyerr (world_of (psyco_exec_green ?env ''SELECT 1'' idle_world)) = pyerr ?w2"
    and "async_cursor (world_of (psyco_exec_green ?env ''SELECT 1'' idle_world)) = None"
    by blast+
  with c h1 h2 h3 show ?thesis by simp
qed

subsection \<open>The error that survives the recovery\<close>

text \<open>
  Claim C6. For every call of \<^verbatim>\<open>psyco_panic_cancel\<close> entered with an exception
  pending, that exception is the one pending when the function returns, and still after
  the cleanup at the label \<^verbatim>\<open>end\<close> of its caller. The callees are arbitrary: the
  cancel request may fail to be sent, the second wait may fail or succeed, and each of
  them, like the warnings, may raise; none of it replaces the original exception.
\<close>

theorem panic_cancel_keeps_error:
  assumes "pyerr w = Some e"
  shows "pyerr (fst (psyco_panic_cancel env w)) = Some e \<and>
         pyerr (world_of (exec_green_end None (fst (psyco_panic_cancel env w)) l)) = Some e"
  using panic_cancel_restores [OF assms] by (simp add: exec_green_end_parts)

text \<open>The witness: the second wait raises another exception and the warning is turned
  into a third; the one pending on entry is the one that remains.\<close>

theorem panic_cancel_keeps_error_witness:
  "pyerr (idle_world\<lparr>pyerr := Some timeout\<rparr>) = Some timeout \<and>
   pyerr (fst (psyco_panic_cancel
     (sample_env (Some (PyObj 9)) 1 (Some (PyExc (PyExcClass ''OSError'') ''reset'')) 1 True)
     (idle_world\<lparr>pyerr := Some timeout\<rparr>))) = Some timeout \<and>
   pyerr (world_of (exec_green_end None (fst (psyco_panic_cancel
     (sample_env (Some (PyObj 9)) 1 (Some (PyExc (PyExcClass ''OSError'') ''reset'')) 1 True)
     (idle_world\<lparr>pyerr := Some timeout\<rparr>))) [])) = Some timeout"
proof -
  have h: "pyerr (idle_world\<lparr>pyerr := Some timeout\<rparr>) = Some timeout" by simp
  from panic_cancel_keeps_error [OF h] h show ?thesis by blast
qed

subsection \<open>The cancel request cannot be sent\<close>

text \<open>
  Claim C8. For every call of \<^verbatim>\<open>psyco_panic_cancel\<close> in which \<^verbatim>\<open>PQcancel\<close> returns 0:
  the calls made are \<^verbatim>\<open>PQcancel\<close> and one \<^verbatim>\<open>PyErr_WarnEx\<close> carrying the text of
  \<^verbatim>\<open>errbuf\<close>, and no other (no second wait, no \<^verbatim>\<open>conn_close_locked\<close>); the closed
  flag is as the warning left it; and when an exception \<open>e\<close> was pending on entry, the
  state returned is the one the warning left with \<open>e\<close> pending again.
\<close>

theorem panic_cancel_transport_failure:
  assumes "PQcancel env (cancel w) (w\<lparr>pyerr := None\<rparr>) = ((0, errbuf), w1)"
    and "PyErr_WarnEx env errbuf w1 = (x, w2)"
  shows "snd (psyco_panic_cancel env w) = [EvPQcancel (cancel w), EvWarnEx errbuf] \<and>
         closed (fst (psyco_panic_cancel env w)) = closed w2 \<and>
         (\<forall>e. pyerr w = Some e \<longrightarrow> fst (psyco_panic_cancel env w) = w2\<lparr>pyerr := Some e\<rparr>)"
  using panic_cancel_unsent [OF assms]
  by (simp add: panic_cancel_exit_def PyErr_Restore_def split: option.split)

theorem panic_cancel_transport_failure_witness:
  "PQcancel (sample_env (Some (PyObj 9)) 1 (Some timeout) 0 True)
     (cancel (idle_world\<lparr>pyerr := Some timeout\<rparr>))
     (idle_world\<lparr>pyerr := Some timeout, pyerr := None\<rparr>) =
     ((0, ''PQcancel() -- connect() failed''), idle_world\<lparr>pyerr := None\<rparr>) \<and>
   PyErr_WarnEx (sample_env (Some (PyObj 9)) 1 (Some timeout) 0 True)
     ''PQcancel() -- connect() failed'' (idle_world\<lparr>pyerr := None\<rparr>) =
     (- 1, idle_world\<lparr>pyerr := Some (PyExc (PyExcClass ''RuntimeWarning'')
             ''PQcancel() -- connect() failed'')\<rparr>) \<and>
   pyerr (idle_world\<lparr>pyerr := Some timeout\<rparr>) = Some timeout \<and>
   snd (psyco_panic_cancel (sample_env (Some (PyObj 9)) 1 (Some timeout) 0 True)
     (idle_world\<lparr>pyerr := Some timeout\<rparr>)) =
     [EvPQcancel 5, EvWarnEx ''PQcancel() -- connect() failed''] \<and>
   closed (fst (psyco_panic_cancel (sample_env (Some (PyObj 9)) 1 (Some timeout) 0 True)
     (idle_world\<lparr>pyerr := Some timeout\<rparr>))) = False \<and>
   fst (psyco_panic_cancel (sample_env (Some (PyObj 9)) 1 (Some timeout) 0 True)
     (idle_world\<lparr>pyerr := Some timeout\<rparr>)) = idle_world\<lparr>pyerr := Some timeout\<rparr>"
proof -
  let ?env = "sample_env (Some (PyObj 9)) 1 (Some timeout) 0 True"
  let ?w = "idle_world\<lparr>pyerr := Some timeout\<rparr>"
  let ?w2 = "idle_world\<lparr>pyerr := Some (PyExc (PyExcClass ''RuntimeWarning'')
             ''PQcancel() -- connect() failed'')\<rparr>"
  have h1: "PQcancel ?env (cancel ?w) (?w\<lparr>pyerr := None\<rparr>) =
      ((0, ''PQcancel() -- connect() failed''), idle_world\<lparr>pyerr := None\<rparr>)"
    by (simp add: sample_env_def)
  have h2: "PyErr_WarnEx ?env ''PQcancel() -- connect() failed'' (idle_world\<lparr>pyerr := None\<rparr>) =
      (- 1, ?w2)"
    by (simp add: sample_env_def)
  have h3: "pyerr ?w = Some timeout" by simp
  have c: "cancel ?w = 5" "closed ?w2 = False" "?w2\<lparr>pyerr := Some timeout\<rparr> = ?w"
    by (simp_all add: idle_world_def)
  from panic_cancel_transport_failure [OF h1 h2] h3
  have "snd (psyco_panic_cancel ?env ?w) =
          [EvPQcancel (cancel ?w), EvWarnEx ''PQcancel() -- connect() failed'']"
    and "closed (fst (psyco_panic_cancel ?env ?w)) = closed ?w2"
    and "fst (psyco_panic_cancel ?env ?w) = ?w2\<lparr>pyerr := Some timeout\<rparr>"
    by blast+
  with c h1 h2 h3 show ?thesis by simp
qed

subsection \<open>The second wait fails\<close>

text \<open>
  The path of \<^verbatim>\<open>psyco_exec_green\<close> on which the first \<^verbatim>\<open>psyco_wait\<close> fails leaving the
  exception \<open>e\<close> pending, \<^verbatim>\<open>PQcancel\<close> succeeds and the second \<^verbatim>\<open>psyco_wait\<close>
  fails as well, for arbitrary callees: \<^verbatim>\<open>PyErr_WarnEx\<close> is called on the state the
  second wait left, \<^verbatim>\<open>conn_close_locked\<close> is the last call made, the connection is
  closed when the call returns, no result is returned, and the pending exception is \<open>e\<close>.
\<close>

lemma exec_green_cancel_ack_run:
  assumes "async_cursor w = None"
    and "PyWeakref_NewRef env w = (Some r, w1)"
    and "pq_send_query env command (w1\<lparr>async_cursor := Some r\<rparr>) = (rv, w2)"
    and "rv \<noteq> 0"
    and "psyco_wait env (w2\<lparr>async_status := ASYNC_WRITE\<rparr>) = (rc, w3, l)"
    and "rc \<noteq> 0"
    and "pyerr w3 = Some e"
    and "PQcancel env (cancel w3) (w3\<lparr>pyerr := None\<rparr>) = ((crv, errbuf), w4)"
    and "crv \<noteq> 0"
    and "psyco_wait env w4 = (rc', w5, l')"
    and "rc' \<noteq> 0"
    and "PyErr_WarnEx env ''async cancel failed: closing the connection'' w5 = (x, w6)"
  shows "psyco_exec_green env command w =
           (None,
            w6\<lparr>closed := True, pyerr := Some e, async_status := ASYNC_DONE,
               async_cursor := None\<rparr>,
            [EvNewRef, EvSendQuery command] @ l @
            EvPQcancel (cancel w3) # l' @
            [EvWarnEx ''async cancel failed: closing the connection'', EvConnClose]) \<and>
         closed (world_of (psyco_exec_green env command w)) \<and>
         pyerr (world_of (psyco_exec_green env command w)) = Some e"
proof -
  have recover: "psyco_panic_cancel env w3 =
      (w6\<lparr>closed := True, pyerr := Some e\<rparr>,
       EvPQcancel (cancel w3) # l' @
       [EvWarnEx ''async cancel failed: closing the connection'', EvConnClose])"
    using panic_cancel_sent [OF assms(8,9,10,11,12)] assms(7)
    by (simp add: panic_cancel_exit_def PyErr_Restore_def conn_close_locked_def)
  have "psyco_exec_green env command w =
      exec_green_end None (fst (psyco_panic_cancel env w3))
        ([EvNewRef, EvSendQuery command] @ l @ snd (psyco_panic_cancel env w3))"
    using exec_green_sent [OF assms(1,2,3,4,5)] assms(6) by simp
  with recover show ?thesis
    by (simp add: exec_green_end_def world_of_def)
qed

text \<open>
  Claim C7. The claim: when the first wait fails, the cancel request is sent and the
  second wait fails too, the connection is force-closed, a warning about the forced close
  is recorded, and the error surfaced is the original one. The code closes the connection
  and restores the original error, but the warning is lost. \<^verbatim>\<open>PyErr_Fetch\<close> took away
  the exception of the first wait only; the second wait has raised again, and
  \<^verbatim>\<open>PyErr_WarnEx\<close> is called with that exception still pending. On \<open>recording_world\<close>,
  with a callback that raises on every call: \<^verbatim>\<open>PyErr_WarnEx\<close> is called with "async
  cancel failed: closing the connection", and the list of delivered warnings is empty
  when the call returns.
\<close>

theorem exec_green_cancel_ack_warning_lost:
  "psyco_exec_green (recording_env 1) ''SELECT 1'' recording_world =
     (None,
      recording_world\<lparr>closed := True, pyerr := Some timeout\<rparr>,
      [EvNewRef, EvSendQuery ''SELECT 1'', EvCallback (PyObj 1), EvPQcancel 5,
       EvCallback (PyObj 1), EvWarnEx ''async cancel failed: closing the connection'',
       EvConnClose]) \<and>
   rest (world_of (psyco_exec_green (recording_env 1) ''SELECT 1'' recording_world)) = []"
  by (simp add: psyco_exec_green_def exec_green_end_def world_of_def psyco_wait_def
      have_wait_callback_def psyco_panic_cancel_def PyErr_Fetch_def panic_cancel_steps_def
      panic_cancel_exit_def PyErr_Restore_def conn_close_locked_def PyErr_WarnEx_cpython_def
      recording_env_def recording_world_def)

text \<open>
  The sibling path delivers its warning. When the cancel request cannot be sent, the
  warning is issued right after \<^verbatim>\<open>PyErr_Fetch\<close>, with no exception pending: with the
  same callback and state, the text of \<^verbatim>\<open>errbuf\<close> is in the list of delivered warnings
  when the call returns.
\<close>

lemma exec_green_cancel_unsent_warning_delivered:
  "psyco_exec_green (recording_env 0) ''SELECT 1'' recording_world =
     (None,
      recording_world\<lparr>pyerr := Some timeout, rest := [''PQcancel() -- connect() failed'']\<rparr>,
      [EvNewRef, EvSendQuery ''SELECT 1'', EvCallback (PyObj 1), EvPQcancel 5,
       EvWarnEx ''PQcancel() -- connect() failed''])"
  by (simp add: psyco_exec_green_def exec_green_end_def psyco_wait_def
      have_wait_callback_def psyco_panic_cancel_def PyErr_Fetch_def panic_cancel_steps_def
      panic_cancel_exit_def PyErr_Restore_def PyErr_WarnEx_cpython_def
      recording_env_def recording_world_def)

subsection \<open>The registry\<close>

text \<open>
  Claim C9, as stated, fails. The claim: after \<^verbatim>\<open>psyco_set_wait_callback(v)\<close>,
  \<^verbatim>\<open>psyco_green()\<close> is true iff \<open>v\<close> is a callback. \<^verbatim>\<open>psyco_green\<close> looks at the
  registry only under \<^verbatim>\<open>#ifdef PSYCOPG_EXTENSIONS\<close>: in a build without the macro it
  returns 0 after a callback has been registered.
\<close>

theorem psyco_green_without_extensions:
  "PyObj 1 \<noteq> Py_None \<and>
   psyco_green False (snd (psyco_set_wait_callback (PyObj 1) no_callback_world)) = 0"
  by (simp add: psyco_green_def)

text \<open>
  Claim C9, amended. Registering \<^verbatim>\<open>Py_None\<close> twice in a row leaves the state that
  registering it once leaves; after \<^verbatim>\<open>psyco_set_wait_callback(v)\<close>, in a build with
  \<^verbatim>\<open>PSYCOPG_EXTENSIONS\<close> defined \<^verbatim>\<open>psyco_green()\<close> is nonzero iff \<open>v\<close> is not
  \<^verbatim>\<open>Py_None\<close>, and in a build without it \<^verbatim>\<open>psyco_green()\<close> is 0.
\<close>

theorem set_wait_callback_registry:
  "snd (psyco_set_wait_callback Py_None (snd (psyco_set_wait_callback Py_None w))) =
     snd (psyco_set_wait_callback Py_None w) \<and>
   (psyco_green True (snd (psyco_set_wait_callback v w)) \<noteq> 0) = (v \<noteq> Py_None) \<and>
   psyco_green False (snd (psyco_set_wait_callback v w)) = 0"
  by (simp add: psyco_set_wait_callback_def psyco_green_def)

subsection \<open>No pending error\<close>

text \<open>
  Claim C10. When \<^verbatim>\<open>psyco_panic_cancel\<close> is entered with no exception pending, it
  returns the state its recovery steps left, untouched by the label \<^verbatim>\<open>exit\<close>. In
  particular the error indicator is the one the last warning left: after the warning
  that follows a cancel request that could not be sent, and after the warning that
  follows a failed second wait (\<^verbatim>\<open>conn_close_locked\<close> does not touch the indicator).
\<close>

theorem panic_cancel_no_pending_error:
  assumes "pyerr w = None"
  shows "psyco_panic_cancel env w = panic_cancel_steps env w \<and>
         (\<forall>errbuf w1 x w2.
            PQcancel env (cancel w) w = ((0, errbuf), w1) \<longrightarrow>
            PyErr_WarnEx env errbuf w1 = (x, w2) \<longrightarrow>
            pyerr (fst (psyco_panic_cancel env w)) = pyerr w2) \<and>
         (\<forall>rv errbuf w1 rc w2 l x w3.
            PQcancel env (cancel w) w = ((rv, errbuf), w1) \<longrightarrow> rv \<noteq> 0 \<longrightarrow>
            psyco_wait env w1 = (rc, w2, l) \<longrightarrow> rc \<noteq> 0 \<longrightarrow>
            PyErr_WarnEx env ''async cancel failed: closing the connection'' w2 = (x, w3) \<longrightarrow>
            pyerr (fst (psyco_panic_cancel env w)) = pyerr w3)"
proof -
  have same: "w\<lparr>pyerr := None\<rparr> = w"
    using assms by (rule fetch_nothing)
  have "psyco_panic_cancel env w = panic_cancel_steps env w"
    by (simp add: psyco_panic_cancel_def PyErr_Fetch_def panic_cancel_exit_def same assms
        split: prod.split)
  moreover have "pyerr (fst (psyco_panic_cancel env w)) = pyerr w2"
    if "PQcancel env (cancel w) w = ((0, errbuf), w1)" "PyErr_WarnEx env errbuf w1 = (x, w2)"
    for errbuf w1 x w2
    using panic_cancel_unsent [of env w errbuf w1 x w2] that assms
    by (simp add: same panic_cancel_exit_def)
  moreover have "pyerr (fst (psyco_panic_cancel env w)) = pyerr w3"
    if "PQcancel env (cancel w) w = ((rv, errbuf), w1)" "rv \<noteq> 0"
      "psyco_wait env w1 = (rc, w2, l)" "rc \<noteq> 0"
      "PyErr_WarnEx env ''async cancel failed: closing the connection'' w2 = (x, w3)"
    for rv errbuf w1 rc w2 l x w3
    using panic_cancel_sent [of env w rv errbuf w1 rc w2 l x w3] that assms
    by (simp add: same panic_cancel_exit_def conn_close_locked_def)
  ultimately show ?thesis by blast
qed

text \<open>The witness: the cancel request cannot be sent and the warning is turned into an
  exception, which is pending when the function returns.\<close>

theorem panic_cancel_no_pending_error_witness:
  "pyerr idle_world = None \<and>
   PQcancel (sample_env (Some (PyObj 9)) 1 (Some timeout) 0 True) (cancel idle_world)
     idle_world = ((0, ''PQcancel() -- connect() failed''), idle_world) \<and>
   PyErr_WarnEx (sample_env (Some (PyObj 9)) 1 (Some timeout) 0 True)
     ''PQcancel() -- connect() failed'' idle_world =
     (- 1, idle_world\<lparr>pyerr := Some (PyExc (PyExcClass ''RuntimeWarning'')
             ''PQcancel() -- connect() failed'')\<rparr>) \<and>
   pyerr (fst (psyco_panic_cancel (sample_env (Some (PyObj 9)) 1 (Some timeout) 0 True)
     idle_world)) =
     Some (PyExc (PyExcClass ''RuntimeWarning'') ''PQcancel() -- connect() failed'')"
proof -
  let ?env = "sample_env (Some (PyObj 9)) 1 (Some timeout) 0 True"
  let ?w2 = "idle_world\<lparr>pyerr := Some (PyExc (PyExcClass ''RuntimeWarning'')
             ''PQcancel() -- connect() failed'')\<rparr>"
  have h: "pyerr idle_world = None" by (simp add: idle_world_def)
  have h1: "PQcancel ?env (cancel idle_world) idle_world =
      ((0, ''PQcancel() -- connect() failed''), idle_world)"
    by (simp add: sample_env_def)
  have h2: "PyErr_WarnEx ?env ''PQcancel() -- connect() failed'' idle_world = (- 1, ?w2)"
    by (simp add: sample_env_def)
  from panic_cancel_no_pending_error [OF h, of ?env] h1 h2
  have "pyerr (fst (psyco_panic_cancel ?env idle_world)) = pyerr ?w2"
    by blast
  with h h1 h2 show ?thesis by simp
qed

end
